theory Spec2Isabelle
  imports Complex_Main
begin

section \<open>Policy engine of Proxi (src/guardrails/policy\_engine.py)\<close>

text \<open>
  The engine is a Python object mutated in place; here every method takes the object and
  returns the updated one, next to its result when it can raise. Conventions of the
  embedding:
  \<^item> \<open>datetime.now()\<close> is an explicit argument, one for every place where the source
    reads the clock. A \<open>datetime\<close> is its distance in seconds from \<open>datetime.min\<close>
    (year 1), a real number; time spans are seconds as real numbers, and the float
    arithmetic of \<open>total_seconds()\<close> and of \<open>remaining + additional_seconds\<close> is read as
    exact arithmetic, except for the conversion of an integer too large for a float, which
    raises;
  \<^item> the policy document is the dictionary returned by \<open>json.load\<close>. Its values have
    the types of the schema (lists of tool names, a dictionary of modes), but any key the
    code indexes may be absent, and indexing it raises \<open>KeyError\<close>;
  \<^item> every method runs as one atomic step (the lock of the manager is not modelled);
  \<^item> a timer that was started and not cancelled may wake up at any later moment;
  \<^item> \<open>print\<close> output is not modelled, and neither is the \<open>message\<close> text of
    \<open>PolicyViolationError\<close>; its fields \<open>tool_name\<close>, \<open>mode\<close> and \<open>reason\<close> are.
\<close>

subsection \<open>Errors\<close>

datatype error =
    PolicyViolationError string string string  \<comment> \<open>\<open>tool_name\<close>, \<open>mode\<close>, \<open>reason\<close>\<close>
  | ValueError string
  | KeyError string
  | TypeError
  | OverflowError
  | ValidationError  \<comment> \<open>a request refused by its schema in the transport layer\<close>
  | HTTPException nat

subsection \<open>Policy document\<close>

record mode_policy =
  description :: "string option"
  allowed_tools :: "string list option"
  blocked_tools :: "string list option"

record global_rules_doc =
  always_blocked :: "string list option"

text \<open>\<open>modes\<close> lists the keys of the dictionary with their values; a key occurs once.\<close>

record policy_doc =
  policy_name :: "string option"
  version :: "string option"
  modes :: "(string \<times> mode_policy) list option"
  global_rules :: "global_rules_doc option"

subsection \<open>Dates\<close>

text \<open>
  \<open>datetime.max\<close> is 9999-12-31 23:59:59.999999, that is 3652059 days less one
  microsecond after \<open>datetime.min\<close>. \<open>datetime.now() + timedelta(seconds=d)\<close> raises
  \<open>OverflowError\<close> when the sum is outside this range (for the largest \<open>d\<close> already in
  \<open>timedelta\<close>).
\<close>

definition datetime_max :: real where
  "datetime_max = 3652059 * 86400 - 1 / 1000000"

definition in_datetime_range :: "real \<Rightarrow> bool" where
  "in_datetime_range t = (0 \<le> t \<and> t \<le> datetime_max)"

text \<open>
  A float plus an integer converts the integer first; the conversion raises
  \<open>OverflowError\<close> from \<open>2^1024 - 2^970\<close> on, the first integer that rounds to \<open>2^1024\<close>.
\<close>

definition float_of_int_overflows :: "int \<Rightarrow> bool" where
  "float_of_int_overflows n = (2 ^ 1024 - 2 ^ 970 \<le> \<bar>n\<bar>)"

text \<open>Python's \<open>int(x)\<close> on a float: truncation towards zero.\<close>

definition py_int :: "real \<Rightarrow> int" where
  "py_int x = (if 0 \<le> x then \<lfloor>x\<rfloor> else \<lceil>x\<rceil>)"

subsection \<open>TemporaryPermissionManager\<close>

text \<open>
  A \<open>threading.Timer\<close> object: its interval and its \<open>finished\<close> event. \<open>cancel()\<close> sets
  the event; when the timer thread wakes up it calls its function only if the event is not
  set, and sets it afterwards.
\<close>

record timer_obj =
  interval :: int
  finished :: bool

text \<open>
  The two closures \<open>on_expiry\<close> of \<open>grant_temporary_emergency\<close> and
  \<open>extend_temporary_emergency\<close> have the same body, \<open>self.current_mode = self.base_mode\<close>.
\<close>

datatype callback = On_expiry

text \<open>
  \<open>timers\<close> holds the Timer objects this manager has started, in order of creation;
  the field \<open>timer\<close> refers to one of them by its position.
\<close>

record TemporaryPermissionManager =
  is_active :: bool
  expiry_time :: "real option"
  timer :: "nat option"
  on_expiry_callback :: "callback option"
  timers :: "timer_obj list"

definition TemporaryPermissionManager_init :: TemporaryPermissionManager where
  "TemporaryPermissionManager_init =
     \<lparr>is_active = False, expiry_time = None, timer = None, on_expiry_callback = None,
      timers = []\<rparr>"

definition cancel :: "nat \<Rightarrow> timer_obj list \<Rightarrow> timer_obj list" where
  "cancel i ts = (if i < length ts then ts[i := (ts ! i)\<lparr>finished := True\<rparr>] else ts)"

text \<open>
  \<open>grant\<close> cancels the timer and sets \<open>is_active\<close> before it computes the expiry time;
  when that raises, the other fields keep their values.
\<close>

definition grant ::
  "int \<Rightarrow> callback option \<Rightarrow> real \<Rightarrow> TemporaryPermissionManager
     \<Rightarrow> (error + unit) \<times> TemporaryPermissionManager"
where
  "grant duration_seconds on_expiry now m =
     (let ts = (case timer m of Some i \<Rightarrow> cancel i (timers m) | None \<Rightarrow> timers m);
          m1 = m\<lparr>timers := ts, is_active := True\<rparr>
      in if \<not> in_datetime_range (now + real_of_int duration_seconds) then
           (Inl OverflowError, m1)
         else
           (Inr (),
            m1\<lparr>expiry_time := Some (now + real_of_int duration_seconds),
               on_expiry_callback := on_expiry,
               timer := Some (length ts),
               timers := ts @ [\<lparr>interval = duration_seconds, finished = False\<rparr>]\<rparr>))"

text \<open>\<open>_expire\<close> up to the call of the callback, which acts on the engine (see \<open>timer_fires\<close>).\<close>

definition expire :: "TemporaryPermissionManager \<Rightarrow> TemporaryPermissionManager" where
  "expire m = m\<lparr>is_active := False, expiry_time := None, timer := None\<rparr>"

definition revoke :: "TemporaryPermissionManager \<Rightarrow> TemporaryPermissionManager" where
  "revoke m =
     (let m1 = (case timer m of
                  Some i \<Rightarrow> m\<lparr>timers := cancel i (timers m), timer := None\<rparr>
                | None \<Rightarrow> m)
      in m1\<lparr>is_active := False, expiry_time := None\<rparr>)"

definition is_valid :: "real \<Rightarrow> TemporaryPermissionManager \<Rightarrow> bool" where
  "is_valid now m =
     (is_active m \<and> (case expiry_time m of None \<Rightarrow> True | Some t \<Rightarrow> now < t))"

definition remaining_time :: "real \<Rightarrow> TemporaryPermissionManager \<Rightarrow> real option" where
  "remaining_time now m =
     (if \<not> is_active m then None
      else case expiry_time m of
             None \<Rightarrow> None
           | Some t \<Rightarrow> Some (max 0 (t - now)))"

subsection \<open>PolicyEngine\<close>

record PolicyEngine =
  policy :: policy_doc
  current_mode :: string
  base_mode :: string
  temp_permission :: TemporaryPermissionManager

text \<open>\<open>__init__\<close>, after \<open>_load_policy\<close> has returned the document.\<close>

definition PolicyEngine_init :: "policy_doc \<Rightarrow> PolicyEngine" where
  "PolicyEngine_init pol =
     \<lparr>policy = pol, current_mode = ''NORMAL'', base_mode = ''NORMAL'',
      temp_permission = TemporaryPermissionManager_init\<rparr>"

definition set_mode :: "string \<Rightarrow> real \<Rightarrow> PolicyEngine \<Rightarrow> (error + unit) \<times> PolicyEngine" where
  "set_mode m now e =
     (case modes (policy e) of
        None \<Rightarrow> (Inl (KeyError ''modes''), e)
      | Some ms \<Rightarrow>
          if map_of ms m = None then (Inl (ValueError (''Invalid mode: '' @ m)), e)
          else
            let tp = (if is_valid now (temp_permission e) then revoke (temp_permission e)
                      else temp_permission e)
            in (Inr (), e\<lparr>temp_permission := tp, current_mode := m, base_mode := m\<rparr>))"

definition on_expiry :: "PolicyEngine \<Rightarrow> PolicyEngine" where
  "on_expiry e = e\<lparr>current_mode := base_mode e\<rparr>"

fun call :: "callback \<Rightarrow> PolicyEngine \<Rightarrow> PolicyEngine" where
  "call On_expiry e = on_expiry e"

definition grant_temporary_emergency ::
  "int \<Rightarrow> real \<Rightarrow> PolicyEngine \<Rightarrow> (error + unit) \<times> PolicyEngine"
where
  "grant_temporary_emergency duration_seconds now e =
     (let e1 = e\<lparr>base_mode := current_mode e\<rparr>;
          e2 = e1\<lparr>current_mode := ''EMERGENCY''\<rparr>;
          (r, tp) = grant duration_seconds (Some On_expiry) now (temp_permission e2)
      in (r, e2\<lparr>temp_permission := tp\<rparr>))"

text \<open>
  \<open>remaining_time() or 0\<close> is the integer 0 when the manager returns \<open>None\<close> or \<open>0.0\<close>,
  so only a remaining time other than 0 makes the sum a float sum.
\<close>

definition new_duration :: "int \<Rightarrow> real \<Rightarrow> TemporaryPermissionManager \<Rightarrow> int" where
  "new_duration additional_seconds now m =
     (let remaining = (case remaining_time now m of None \<Rightarrow> 0 | Some r \<Rightarrow> r)
      in py_int (remaining + real_of_int additional_seconds))"

text \<open>
  The clock is read three times: by \<open>is_valid\<close>, by \<open>remaining_time\<close> and by \<open>grant\<close>.
\<close>

definition extend_temporary_emergency ::
  "int \<Rightarrow> real \<Rightarrow> real \<Rightarrow> real \<Rightarrow> PolicyEngine \<Rightarrow> (error + unit) \<times> PolicyEngine"
where
  "extend_temporary_emergency additional_seconds now1 now2 now3 e =
     (if \<not> is_valid now1 (temp_permission e) then (Inr (), e)
      else if remaining_time now2 (temp_permission e) \<notin> {None, Some 0}
              \<and> float_of_int_overflows additional_seconds
      then (Inl OverflowError, e)
      else
        let (r, tp) = grant (new_duration additional_seconds now2 (temp_permission e))
                        (Some On_expiry) now3 (temp_permission e)
        in (r, e\<lparr>temp_permission := tp\<rparr>))"

definition revoke_temporary_emergency :: "PolicyEngine \<Rightarrow> PolicyEngine" where
  "revoke_temporary_emergency e =
     (let e1 = e\<lparr>temp_permission := revoke (temp_permission e)\<rparr>
      in e1\<lparr>current_mode := base_mode e1\<rparr>)"

text \<open>
  The thread of Timer number \<open>i\<close> wakes up: unless the timer was cancelled it runs
  \<open>_expire\<close>, which ends with the callback, and the timer is finished.
\<close>

definition timer_fires :: "nat \<Rightarrow> PolicyEngine \<Rightarrow> PolicyEngine" where
  "timer_fires i e =
     (let tp = temp_permission e in
      if i < length (timers tp) \<and> \<not> finished (timers tp ! i) then
        let e1 = e\<lparr>temp_permission := expire tp\<rparr>;
            e2 = (case on_expiry_callback tp of Some cb \<Rightarrow> call cb e1 | None \<Rightarrow> e1)
        in e2\<lparr>temp_permission :=
                (temp_permission e2)\<lparr>timers := cancel i (timers (temp_permission e2))\<rparr>\<rparr>
      else e)"

definition get_current_mode :: "PolicyEngine \<Rightarrow> string" where
  "get_current_mode e = current_mode e"

text \<open>
  \<open>get_temporary_status\<close> returns the dictionary with the keys \<open>is_active\<close>,
  \<open>remaining_seconds\<close>, \<open>base_mode\<close> and \<open>current_mode\<close>, here in this order.
\<close>

definition get_temporary_status ::
  "real \<Rightarrow> real \<Rightarrow> PolicyEngine \<Rightarrow> bool \<times> real option \<times> string \<times> string"
where
  "get_temporary_status now1 now2 e =
     (is_valid now1 (temp_permission e), remaining_time now2 (temp_permission e),
      base_mode e, current_mode e)"

text \<open>\<open>self.policy['modes'][self.current_mode]\<close>\<close>

definition current_mode_policy :: "PolicyEngine \<Rightarrow> error + mode_policy" where
  "current_mode_policy e =
     (case modes (policy e) of
        None \<Rightarrow> Inl (KeyError ''modes'')
      | Some ms \<Rightarrow>
          (case map_of ms (current_mode e) of
             None \<Rightarrow> Inl (KeyError (current_mode e))
           | Some mp \<Rightarrow> Inr mp))"



text \<open>The three \<open>reason\<close> texts of \<open>validate\<close>, under the names the specification gives them.\<close>

definition GloballyBlocked :: string where
  "GloballyBlocked = ''Globally blocked - destructive operation''"

definition BlockedInMode :: "string \<Rightarrow> string" where
  "BlockedInMode m = ''Blocked in '' @ m @ '' mode''"

definition NotWhitelisted :: "string \<Rightarrow> string" where
  "NotWhitelisted m = ''Not whitelisted for '' @ m @ '' mode''"

text \<open>
  Where a grant is valid (clock read \<open>now1\<close>) the source formats \<open>remaining_time()\<close>
  (clock read \<open>now2\<close>) with \<open>:.1f\<close>, which raises \<open>TypeError\<close> on \<open>None\<close>.
\<close>

definition temp_status :: "real \<Rightarrow> real \<Rightarrow> TemporaryPermissionManager \<Rightarrow> error + unit" where
  "temp_status now1 now2 tp =
     (if is_valid now1 tp then
        (case remaining_time now2 tp of None \<Rightarrow> Inl TypeError | Some r \<Rightarrow> Inr ())
      else Inr ())"

text \<open>
  \<open>validate\<close> changes no field of the engine, so it returns its result only. It reads
  \<open>allowed_tools\<close> and then \<open>blocked_tools\<close> of the mode before it tests either.
\<close>

definition validate ::
  "string \<Rightarrow> (string \<rightharpoonup> 'a) option \<Rightarrow> (string \<rightharpoonup> 'b) option \<Rightarrow> real \<Rightarrow> real \<Rightarrow> PolicyEngine
     \<Rightarrow> error + bool"
where
  "validate tool_name args context now1 now2 e =
     (let args1 = (case args of None \<Rightarrow> Map.empty | Some a \<Rightarrow> a);
          context1 = (case context of None \<Rightarrow> Map.empty | Some c \<Rightarrow> c)
      in
      (case global_rules (policy e) of
         None \<Rightarrow> Inl (KeyError ''global_rules'')
       | Some rules \<Rightarrow>
      (case always_blocked rules of
         None \<Rightarrow> Inl (KeyError ''always_blocked'')
       | Some globally_blocked \<Rightarrow>
      if tool_name \<in> set globally_blocked then
        Inl (PolicyViolationError tool_name (current_mode e) GloballyBlocked)
      else
      (case current_mode_policy e of
         Inl err \<Rightarrow> Inl err
       | Inr mode_policy \<Rightarrow>
      (case allowed_tools mode_policy of
         None \<Rightarrow> Inl (KeyError ''allowed_tools'')
       | Some allowed \<Rightarrow>
      (case blocked_tools mode_policy of
         None \<Rightarrow> Inl (KeyError ''blocked_tools'')
       | Some blocked \<Rightarrow>
      if tool_name \<in> set blocked then
        (case temp_status now1 now2 (temp_permission e) of
           Inl err \<Rightarrow> Inl err
         | Inr _ \<Rightarrow>
             Inl (PolicyViolationError tool_name (current_mode e)
                    (BlockedInMode (current_mode e))))
      else if tool_name \<notin> set allowed then
        Inl (PolicyViolationError tool_name (current_mode e)
               (NotWhitelisted (current_mode e)))
      else
        (case temp_status now1 now2 (temp_permission e) of
           Inl err \<Rightarrow> Inl err
         | Inr _ \<Rightarrow> Inr True)))))))"


subsection \<open>The request schema of the transport layer (src/mcp\_server/server.py)\<close>

text \<open>
  \<open>TemporaryPermissionRequest\<close> declares \<open>duration_seconds: int = Field(ge=1, le=300)\<close>;
  a request outside the bounds is refused before the handler runs. The handler turns any
  exception of the engine into \<open>HTTPException(status_code=500)\<close>.
\<close>

definition TemporaryPermissionRequest :: "int \<Rightarrow> error + int" where
  "TemporaryPermissionRequest duration_seconds =
     (if 1 \<le> duration_seconds \<and> duration_seconds \<le> 300 then Inr duration_seconds
      else Inl ValidationError)"

definition grant_temporary_permission ::
  "int \<Rightarrow> real \<Rightarrow> PolicyEngine \<Rightarrow> (error + unit) \<times> PolicyEngine"
where
  "grant_temporary_permission d now e =
     (case TemporaryPermissionRequest d of
        Inl err \<Rightarrow> (Inl err, e)
      | Inr duration \<Rightarrow>
          (case grant_temporary_emergency duration now e of
             (Inl err, e') \<Rightarrow> (Inl (HTTPException 500), e')
           | (Inr _, e') \<Rightarrow> (Inr (), e')))"

subsection \<open>Sequences of operations\<close>

text \<open>
  An operation that raises leaves the engine in the state it had reached; the next
  operation starts from there.
\<close>

datatype op =
    Set_mode string real
  | Grant_temporary_emergency int real
  | Extend_temporary_emergency int real real real
  | Revoke_temporary_emergency
  | Expiry nat
  | Validate string real real

fun step :: "op \<Rightarrow> PolicyEngine \<Rightarrow> PolicyEngine" where
  "step (Set_mode m now) e = snd (set_mode m now e)"
| "step (Grant_temporary_emergency d now) e = snd (grant_temporary_emergency d now e)"
| "step (Extend_temporary_emergency a now1 now2 now3) e =
     snd (extend_temporary_emergency a now1 now2 now3 e)"
| "step Revoke_temporary_emergency e = revoke_temporary_emergency e"
| "step (Expiry i) e = timer_fires i e"
| "step (Validate t now1 now2) e = e"

definition run :: "op list \<Rightarrow> PolicyEngine \<Rightarrow> PolicyEngine" where
  "run ops e = fold step ops e"

subsection \<open>Policy documents\<close>

text \<open>
  The document of the specification's scenarios: NORMAL allows \<open>get_service_status\<close> and
  blocks \<open>restart_service\<close>, EMERGENCY allows \<open>restart_service\<close>, and
  \<open>delete_database\<close> is always blocked.
\<close>

definition example_policy :: policy_doc where
  "example_policy =
     \<lparr>policy_name = Some ''ops'', version = Some ''1'',
      modes = Some
        [(''NORMAL'', \<lparr>description = Some ''normal'',
                       allowed_tools = Some [''get_service_status''],
                       blocked_tools = Some [''restart_service'']\<rparr>),
         (''EMERGENCY'', \<lparr>description = Some ''emergency'',
                          allowed_tools = Some [''restart_service''],
                          blocked_tools = Some []\<rparr>)],
      global_rules = Some \<lparr>always_blocked = Some [''delete_database'']\<rparr>\<rparr>"



subsection \<open>Invariants of the engine\<close>

text \<open>
  What holds of the engine after any sequence of operations, also after one that raised:
  the two modes agree when no grant is active, a started timer has a callback to call, and
  the only timer that can still fire is the one the manager refers to.
\<close>

definition engine_inv :: "PolicyEngine \<Rightarrow> bool" where
  "engine_inv e =
     (let tp = temp_permission e in
      (\<not> is_active tp \<longrightarrow> current_mode e = base_mode e) \<and>
      (timers tp \<noteq> [] \<longrightarrow> on_expiry_callback tp \<noteq> None) \<and>
      (\<forall>i < length (timers tp). \<not> finished (timers tp ! i) \<longrightarrow> timer tp = Some i))"






section \<open>Properties\<close>

subsection \<open>Invariants\<close>

lemma cancel_length [simp]: "length (cancel i ts) = length ts"
  by (simp add: cancel_def)

lemma cancel_nth: "j < length ts \<Longrightarrow> finished (cancel i ts ! j) = (j = i \<or> finished (ts ! j))"
  by (auto simp: cancel_def nth_list_update)

lemma cancel_Nil [simp]: "(cancel i ts = []) = (ts = [])"
  by (simp add: cancel_def)

lemma call_on_expiry [simp]: "call cb e = on_expiry e"
  by (cases cb) simp

lemma inv_init: "engine_inv (PolicyEngine_init pol)"
  by (simp add: engine_inv_def PolicyEngine_init_def TemporaryPermissionManager_init_def)

lemma inv_revoke_tp:
  assumes "engine_inv e"
  shows "\<forall>i < length (timers (revoke (temp_permission e))). finished (timers (revoke (temp_permission e)) ! i)"
  using assms
  by (auto simp: engine_inv_def revoke_def Let_def cancel_nth split: option.splits)

lemma inv_set_mode: "engine_inv e \<Longrightarrow> engine_inv (snd (set_mode m now e))"
  by (auto simp: engine_inv_def set_mode_def revoke_def Let_def cancel_nth split: option.splits)

lemma inv_grant:
  "engine_inv e \<Longrightarrow> engine_inv (snd (grant_temporary_emergency d now e))"
  by (auto simp: engine_inv_def grant_temporary_emergency_def grant_def Let_def cancel_nth
      nth_append split: option.splits)

lemma inv_extend:
  "engine_inv e \<Longrightarrow> engine_inv (snd (extend_temporary_emergency a now1 now2 now3 e))"
  by (auto simp: engine_inv_def extend_temporary_emergency_def grant_def Let_def cancel_nth
      nth_append split: option.splits)

lemma inv_revoke: "engine_inv e \<Longrightarrow> engine_inv (revoke_temporary_emergency e)"
  by (auto simp: engine_inv_def revoke_temporary_emergency_def revoke_def Let_def cancel_nth
      split: option.splits)

lemma inv_timer_fires: "engine_inv e \<Longrightarrow> engine_inv (timer_fires i e)"
  apply (auto simp: engine_inv_def timer_fires_def expire_def on_expiry_def Let_def cancel_nth
      split: option.splits)
  by (metis option.inject)+

lemma inv_step: "engine_inv e \<Longrightarrow> engine_inv (step x e)"
  by (cases x) (simp_all add: inv_set_mode inv_grant inv_extend inv_revoke inv_timer_fires)

lemma inv_fold: "engine_inv e \<Longrightarrow> engine_inv (fold step xs e)"
  by (induction xs arbitrary: e) (simp_all add: inv_step)

lemma inv_run: "engine_inv (run xs (PolicyEngine_init pol))"
  by (simp add: run_def inv_fold inv_init)

lemma policy_step [simp]: "policy (step x e) = policy e"
  by (cases x)
     (auto simp: set_mode_def grant_temporary_emergency_def extend_temporary_emergency_def
        revoke_temporary_emergency_def timer_fires_def on_expiry_def Let_def
        split: option.splits prod.splits)

lemma policy_fold: "policy (fold step xs e) = policy e"
  by (induction xs arbitrary: e) simp_all

lemma policy_run [simp]: "policy (run xs e) = policy e"
  by (simp add: run_def policy_fold)


lemma timer_fires_all_finished:
  "\<forall>j < length (timers (temp_permission e)). finished (timers (temp_permission e) ! j)
     \<Longrightarrow> timer_fires i e = e"
  by (auto simp: timer_fires_def Let_def)

lemma run_Expiry_all_finished:
  "\<forall>j < length (timers (temp_permission e)). finished (timers (temp_permission e) ! j)
     \<Longrightarrow> run (map Expiry is) e = e"
  by (induction "is") (simp_all add: run_def timer_fires_all_finished)

lemma timer_fires_modes:
  "current_mode e = base_mode e \<Longrightarrow>
     current_mode (timer_fires i e) = current_mode e \<and> base_mode (timer_fires i e) = base_mode e"
  by (auto simp: timer_fires_def on_expiry_def Let_def split: option.splits)

lemma run_Expiry_modes:
  "current_mode e = base_mode e \<Longrightarrow>
     current_mode (run (map Expiry is) e) = current_mode e \<and>
     base_mode (run (map Expiry is) e) = base_mode e"
proof (induction "is" arbitrary: e)
  case Nil
  then show ?case by (simp add: run_def)
next
  case (Cons i "is")
  have "current_mode (timer_fires i e) = base_mode (timer_fires i e)"
    using Cons.prems timer_fires_modes [of e i] by simp
  from Cons.IH [OF this] timer_fires_modes [OF Cons.prems, of i]
  show ?case by (simp add: run_def)
qed

lemma revoke_temporary_emergency_cancels:
  assumes "engine_inv e"
  shows "current_mode (revoke_temporary_emergency e) = base_mode (revoke_temporary_emergency e) \<and>
         run (map Expiry is) (revoke_temporary_emergency e) = revoke_temporary_emergency e"
proof -
  have "temp_permission (revoke_temporary_emergency e) = revoke (temp_permission e)"
    by (simp add: revoke_temporary_emergency_def Let_def)
  with inv_revoke_tp [OF assms]
  have "\<forall>j < length (timers (temp_permission (revoke_temporary_emergency e))).
          finished (timers (temp_permission (revoke_temporary_emergency e)) ! j)"
    by simp
  then have "run (map Expiry is) (revoke_temporary_emergency e) = revoke_temporary_emergency e"
    by (rule run_Expiry_all_finished)
  then show ?thesis
    by (simp add: revoke_temporary_emergency_def Let_def)
qed

lemma base_mode_extend [simp]:
  "base_mode (snd (extend_temporary_emergency a now1 now2 now3 e)) = base_mode e"
  by (simp add: extend_temporary_emergency_def Let_def split: prod.splits)















lemma granted_once:
  "run [Grant_temporary_emergency 10 (127800000001 / 2)] (PolicyEngine_init example_policy) =
     \<lparr>policy = example_policy, current_mode = ''EMERGENCY'', base_mode = ''NORMAL'',
      temp_permission = \<lparr>is_active = True, expiry_time = Some (127800000021 / 2),
        timer = Some 0, on_expiry_callback = Some On_expiry,
        timers = [\<lparr>interval = 10, finished = False\<rparr>]\<rparr>\<rparr>"
  by (simp add: run_def grant_temporary_emergency_def grant_def PolicyEngine_init_def
      TemporaryPermissionManager_init_def in_datetime_range_def datetime_max_def Let_def)

lemma granted_extended_expired:
  "run [Grant_temporary_emergency 10 (127800000001 / 2),
        Extend_temporary_emergency 5 63900000001 63900000001 63900000001, Expiry 1]
     (PolicyEngine_init example_policy) =
     \<lparr>policy = example_policy, current_mode = ''NORMAL'', base_mode = ''NORMAL'',
      temp_permission = \<lparr>is_active = False, expiry_time = None,
        timer = None, on_expiry_callback = Some On_expiry,
        timers = [\<lparr>interval = 10, finished = True\<rparr>, \<lparr>interval = 14, finished = True\<rparr>]\<rparr>\<rparr>"
proof -
  have "run [Grant_temporary_emergency 10 (127800000001 / 2),
        Extend_temporary_emergency 5 63900000001 63900000001 63900000001, Expiry 1]
     (PolicyEngine_init example_policy) =
     run [Extend_temporary_emergency 5 63900000001 63900000001 63900000001, Expiry 1]
       (run [Grant_temporary_emergency 10 (127800000001 / 2)] (PolicyEngine_init example_policy))"
    by (simp add: run_def)
  also have "\<dots> = \<lparr>policy = example_policy, current_mode = ''NORMAL'', base_mode = ''NORMAL'',
      temp_permission = \<lparr>is_active = False, expiry_time = None,
        timer = None, on_expiry_callback = Some On_expiry,
        timers = [\<lparr>interval = 10, finished = True\<rparr>, \<lparr>interval = 14, finished = True\<rparr>]\<rparr>\<rparr>"
    unfolding granted_once
    by (simp add: run_def extend_temporary_emergency_def new_duration_def py_int_def
        timer_fires_def grant_def expire_def is_valid_def remaining_time_def cancel_def
        on_expiry_def float_of_int_overflows_def in_datetime_range_def datetime_max_def Let_def)
  finally show ?thesis .
qed

lemma example_rules:
  "global_rules example_policy = Some \<lparr>always_blocked = Some [''delete_database'']\<rparr>"
  by (simp add: example_policy_def)


subsection \<open>Validation\<close>

text \<open>
  C1: a tool of \<open>global_rules.always_blocked\<close> is refused as globally blocked in every
  state of the engine, whatever the current mode and the grant (also a mode the document
  does not define, also after a grant that raised), and it stays refused after any
  sequence of operations: the global check comes first.
\<close>

theorem validate_globally_blocked:
  assumes "global_rules (policy e) = Some rules"
      and "always_blocked rules = Some globally_blocked"
      and "t \<in> set globally_blocked"
  shows "validate t args ctx now1 now2 e =
           Inl (PolicyViolationError t (current_mode e) GloballyBlocked) \<and>
         validate t args ctx now1 now2 (run ops e) =
           Inl (PolicyViolationError t (current_mode (run ops e)) GloballyBlocked)"
  using assms by (simp add: validate_def)

theorem validate_globally_blocked_witness:
  "global_rules (policy (PolicyEngine_init example_policy)) =
     Some \<lparr>always_blocked = Some [''delete_database'']\<rparr> \<and>
   ''delete_database'' \<in> set [''delete_database''] \<and>
   validate ''delete_database'' (None :: (string \<rightharpoonup> string) option)
       (None :: (string \<rightharpoonup> string) option) 63900000001 63900000001
       (run [Grant_temporary_emergency 300 63900000000] (PolicyEngine_init example_policy)) =
     Inl (PolicyViolationError ''delete_database'' ''EMERGENCY'' GloballyBlocked)"
proof -
  have g: "global_rules (policy (PolicyEngine_init example_policy)) =
             Some \<lparr>always_blocked = Some [''delete_database'']\<rparr>"
    by (simp add: PolicyEngine_init_def example_rules)
  have a: "always_blocked \<lparr>always_blocked = Some [''delete_database'']\<rparr> =
             Some [''delete_database'']"
    by simp
  have h: "''delete_database'' \<in> set [''delete_database'']"
    by simp
  have m: "current_mode (run [Grant_temporary_emergency 300 63900000000]
             (PolicyEngine_init example_policy)) = ''EMERGENCY''"
    by (simp add: run_def grant_temporary_emergency_def Let_def split: prod.splits)
  from validate_globally_blocked [OF g a h,
         of "None :: (string \<rightharpoonup> string) option" "None :: (string \<rightharpoonup> string) option"
            63900000001 63900000001 "[Grant_temporary_emergency 300 63900000000]"] g h m
  show ?thesis by simp
qed

text \<open>
  C9: the decision of \<open>validate\<close> is the same for any two argument maps and any two
  context maps; it depends on the tool name and the state of the engine only.
\<close>

theorem validate_ignores_args_context:
  "validate t a1 c1 now1 now2 e = validate t a2 c2 now1 now2 e"
  by (simp add: validate_def)



subsection \<open>Modes and grants\<close>

text \<open>
  C3 as stated fails: the engine accepts a duration of 0. From the initial state the call
  returns, the current mode is EMERGENCY, the grant is active and a timer is started.
\<close>

theorem grant_nonpositive_counterexample:
  "grant_temporary_emergency 0 63900000000 (PolicyEngine_init example_policy) =
     (Inr (),
      \<lparr>policy = example_policy, current_mode = ''EMERGENCY'', base_mode = ''NORMAL'',
       temp_permission = \<lparr>is_active = True, expiry_time = Some 63900000000,
         timer = Some 0, on_expiry_callback = Some On_expiry,
         timers = [\<lparr>interval = 0, finished = False\<rparr>]\<rparr>\<rparr>) \<and>
   current_mode (PolicyEngine_init example_policy) = ''NORMAL'' \<and>
   \<not> is_active (temp_permission (PolicyEngine_init example_policy))"
  by (simp add: grant_temporary_emergency_def grant_def PolicyEngine_init_def
      TemporaryPermissionManager_init_def in_datetime_range_def datetime_max_def Let_def)

text \<open>
  C3, amended: neither \<open>grant\<close> nor \<open>grant_temporary_emergency\<close> checks the sign of
  the duration. With \<open>d \<le> 0\<close> and \<open>now + d\<close> a date, the call returns: the engine has
  stored the current mode as base mode, switched to EMERGENCY, marked the grant active, set
  the expiry to \<open>now + d\<close> and started a timer of \<open>d\<close> seconds. With \<open>now + d\<close> before
  \<open>datetime.min\<close> the call raises \<open>OverflowError\<close>, after the switch of the modes and
  with the grant marked active. A non-positive duration is refused with the state
  unchanged by the request schema of the transport layer (bounds 1 to 300), before the
  engine is called.
\<close>

theorem grant_nonpositive_not_rejected:
  assumes "d \<le> 0"
  shows "(in_datetime_range (now + real_of_int d) \<longrightarrow>
            (\<exists>e'. grant_temporary_emergency d now e = (Inr (), e') \<and>
                  base_mode e' = current_mode e \<and> current_mode e' = ''EMERGENCY'' \<and>
                  is_active (temp_permission e') \<and>
                  expiry_time (temp_permission e') = Some (now + real_of_int d) \<and>
                  on_expiry_callback (temp_permission e') = Some On_expiry \<and>
                  timer (temp_permission e') = Some (length (timers (temp_permission e))) \<and>
                  timers (temp_permission e') ! length (timers (temp_permission e)) =
                    \<lparr>interval = d, finished = False\<rparr>)) \<and>
         (\<not> in_datetime_range (now + real_of_int d) \<longrightarrow>
            (\<exists>e'. grant_temporary_emergency d now e = (Inl OverflowError, e') \<and>
                  base_mode e' = current_mode e \<and> current_mode e' = ''EMERGENCY'' \<and>
                  is_active (temp_permission e') \<and>
                  expiry_time (temp_permission e') = expiry_time (temp_permission e))) \<and>
         grant_temporary_permission d now e = (Inl ValidationError, e)"
  using assms
  by (auto simp: grant_temporary_emergency_def grant_def Let_def grant_temporary_permission_def
      TemporaryPermissionRequest_def nth_append split: option.splits)

theorem grant_nonpositive_not_rejected_witness:
  "(0::int) \<le> 0 \<and> in_datetime_range (63900000000 + real_of_int 0) \<and>
   (\<exists>e'. grant_temporary_emergency 0 63900000000 (PolicyEngine_init example_policy) =
            (Inr (), e') \<and>
         current_mode e' = ''EMERGENCY'' \<and> is_active (temp_permission e') \<and>
         expiry_time (temp_permission e') = Some 63900000000) \<and>
   \<not> in_datetime_range (63900000000 + real_of_int (- 70000000000)) \<and>
   (\<exists>e'. grant_temporary_emergency (- 70000000000) 63900000000
            (PolicyEngine_init example_policy) = (Inl OverflowError, e') \<and>
         current_mode e' = ''EMERGENCY'' \<and> is_active (temp_permission e') \<and>
         expiry_time (temp_permission e') = None) \<and>
   grant_temporary_permission 0 63900000000 (PolicyEngine_init example_policy) =
     (Inl ValidationError, PolicyEngine_init example_policy)"
proof -
  have r: "in_datetime_range (63900000000 + real_of_int 0)"
    by (simp add: in_datetime_range_def datetime_max_def)
  have n: "\<not> in_datetime_range (63900000000 + real_of_int (- 70000000000))"
    by (simp add: in_datetime_range_def)
  have i: "expiry_time (temp_permission (PolicyEngine_init example_policy)) = None"
    by (simp add: PolicyEngine_init_def TemporaryPermissionManager_init_def)
  from grant_nonpositive_not_rejected [of 0 63900000000 "PolicyEngine_init example_policy"]
       grant_nonpositive_not_rejected
         [of "- 70000000000" 63900000000 "PolicyEngine_init example_policy"]
       r n i
  show ?thesis by auto
qed

text \<open>
  C4: after any sequence of \<open>set_mode\<close>, grant, extend, revoke, timer expiry and
  \<open>validate\<close> from construction, if no grant is active (the flag \<open>is_active\<close> is off)
  then the current mode is the base mode.
\<close>

theorem current_mode_is_base_mode_when_inactive:
  assumes "e = run ops (PolicyEngine_init pol)"
      and "\<not> is_active (temp_permission e)"
  shows "current_mode e = base_mode e"
proof -
  have "engine_inv e"
    using assms(1) by (simp add: inv_run)
  with assms(2) show ?thesis
    by (simp add: engine_inv_def Let_def)
qed

theorem current_mode_is_base_mode_when_inactive_witness:
  "\<not> is_active (temp_permission
       (run [Grant_temporary_emergency 10 (127800000001 / 2),
             Extend_temporary_emergency 5 63900000001 63900000001 63900000001, Expiry 1]
          (PolicyEngine_init example_policy))) \<and>
   current_mode (run [Grant_temporary_emergency 10 (127800000001 / 2),
             Extend_temporary_emergency 5 63900000001 63900000001 63900000001, Expiry 1]
          (PolicyEngine_init example_policy)) = ''NORMAL'' \<and>
   base_mode (run [Grant_temporary_emergency 10 (127800000001 / 2),
             Extend_temporary_emergency 5 63900000001 63900000001 63900000001, Expiry 1]
          (PolicyEngine_init example_policy)) = ''NORMAL''"
proof -
  let ?e = "run [Grant_temporary_emergency 10 (127800000001 / 2),
             Extend_temporary_emergency 5 63900000001 63900000001 63900000001, Expiry 1]
          (PolicyEngine_init example_policy)"
  have h: "\<not> is_active (temp_permission ?e)"
    unfolding granted_extended_expired by simp
  have b: "base_mode ?e = ''NORMAL''"
    unfolding granted_extended_expired by simp
  from current_mode_is_base_mode_when_inactive [OF refl h] h b
  show ?thesis by simp
qed

text \<open>
  C5 as stated fails: a grant of 10 seconds is still marked active half a second after its
  expiry time, while its timer has not fired. \<open>set_mode\<close> called then does not revoke
  it: the grant stays marked active, the timer is not cancelled, and when it fires
  \<open>_expire\<close> and the callback run.
\<close>

theorem set_mode_expired_grant_counterexample:
  "is_active (temp_permission (run [Grant_temporary_emergency 10 (127800000001 / 2)]
      (PolicyEngine_init example_policy))) \<and>
   set_mode ''EMERGENCY'' 63900000011
     (run [Grant_temporary_emergency 10 (127800000001 / 2)] (PolicyEngine_init example_policy)) =
     (Inr (),
      \<lparr>policy = example_policy, current_mode = ''EMERGENCY'', base_mode = ''EMERGENCY'',
       temp_permission = \<lparr>is_active = True, expiry_time = Some (127800000021 / 2),
         timer = Some 0, on_expiry_callback = Some On_expiry,
         timers = [\<lparr>interval = 10, finished = False\<rparr>]\<rparr>\<rparr>) \<and>
   timer_fires 0
     \<lparr>policy = example_policy, current_mode = ''EMERGENCY'', base_mode = ''EMERGENCY'',
       temp_permission = \<lparr>is_active = True, expiry_time = Some (127800000021 / 2),
         timer = Some 0, on_expiry_callback = Some On_expiry,
         timers = [\<lparr>interval = 10, finished = False\<rparr>]\<rparr>\<rparr> =
     \<lparr>policy = example_policy, current_mode = ''EMERGENCY'', base_mode = ''EMERGENCY'',
       temp_permission = \<lparr>is_active = False, expiry_time = None,
         timer = None, on_expiry_callback = Some On_expiry,
         timers = [\<lparr>interval = 10, finished = True\<rparr>]\<rparr>\<rparr>"
  unfolding granted_once
  by (simp add: set_mode_def is_valid_def example_policy_def timer_fires_def expire_def
      on_expiry_def cancel_def Let_def)

text \<open>
  C5, amended: in a reachable state, \<open>set_mode m\<close> with a mode of the document sets the
  current and the base mode to \<open>m\<close>, and they stay \<open>m\<close> whatever timers wake up
  afterwards. When the grant is valid at the call (active, and the clock before its expiry
  time) it is revoked: inactive, no timer referred to, and a timer waking up afterwards
  changes nothing at all. When it is not valid the manager is left as it is. With a mode
  the document does not define, \<open>set_mode\<close> raises \<open>ValueError\<close> and the state is the
  one before the call.
\<close>

theorem set_mode_is_permanent:
  assumes "e = run ops (PolicyEngine_init pol)"
      and "modes pol = Some ms"
  shows "(map_of ms m \<noteq> None \<longrightarrow>
            (\<exists>e'. set_mode m now e = (Inr (), e') \<and> current_mode e' = m \<and> base_mode e' = m \<and>
                  (\<forall>is. current_mode (run (map Expiry is) e') = m \<and>
                        base_mode (run (map Expiry is) e') = m) \<and>
                  (is_valid now (temp_permission e) \<longrightarrow>
                     \<not> is_active (temp_permission e') \<and> timer (temp_permission e') = None \<and>
                     (\<forall>is. run (map Expiry is) e' = e')) \<and>
                  (\<not> is_valid now (temp_permission e) \<longrightarrow>
                     temp_permission e' = temp_permission e))) \<and>
         (map_of ms m = None \<longrightarrow>
            set_mode m now e = (Inl (ValueError (''Invalid mode: '' @ m)), e))"
proof -
  have p: "modes (policy e) = Some ms"
    using assms by (simp add: PolicyEngine_init_def)
  have i: "engine_inv e"
    using assms(1) by (simp add: inv_run)
  show ?thesis
  proof (intro conjI impI)
    assume d: "map_of ms m \<noteq> None"
    define tp where "tp = (if is_valid now (temp_permission e) then revoke (temp_permission e)
                  else temp_permission e)"
    define e' where "e' = e\<lparr>temp_permission := tp, current_mode := m, base_mode := m\<rparr>"
    have s: "set_mode m now e = (Inr (), e')"
      using d p by (simp add: set_mode_def e'_def tp_def Let_def)
    have m: "current_mode e' = m" "base_mode e' = m"
      by (simp_all add: e'_def)
    then have eq: "current_mode e' = base_mode e'" by simp
    have r: "\<forall>is. current_mode (run (map Expiry is) e') = m \<and> base_mode (run (map Expiry is) e') = m"
      using run_Expiry_modes [OF eq] m by simp
    have v: "is_valid now (temp_permission e) \<longrightarrow>
                     \<not> is_active (temp_permission e') \<and> timer (temp_permission e') = None \<and>
                     (\<forall>is. run (map Expiry is) e' = e')"
    proof
      assume "is_valid now (temp_permission e)"
      then have t: "temp_permission e' = revoke (temp_permission e)"
        by (simp add: e'_def tp_def)
      have "\<forall>j < length (timers (temp_permission e')). finished (timers (temp_permission e') ! j)"
        unfolding t using i by (rule inv_revoke_tp)
      then have "\<forall>is. run (map Expiry is) e' = e'"
        by (simp add: run_Expiry_all_finished)
      moreover have "\<not> is_active (temp_permission e')" "timer (temp_permission e') = None"
        unfolding t by (simp_all add: revoke_def Let_def split: option.splits)
      ultimately show "\<not> is_active (temp_permission e') \<and> timer (temp_permission e') = None \<and>
                     (\<forall>is. run (map Expiry is) e' = e')"
        by simp
    qed
    have n: "\<not> is_valid now (temp_permission e) \<longrightarrow> temp_permission e' = temp_permission e"
      by (simp add: e'_def tp_def)
    from s m r v n
    show "\<exists>e'. set_mode m now e = (Inr (), e') \<and> current_mode e' = m \<and> base_mode e' = m \<and>
                  (\<forall>is. current_mode (run (map Expiry is) e') = m \<and>
                        base_mode (run (map Expiry is) e') = m) \<and>
                  (is_valid now (temp_permission e) \<longrightarrow>
                     \<not> is_active (temp_permission e') \<and> timer (temp_permission e') = None \<and>
                     (\<forall>is. run (map Expiry is) e' = e')) \<and>
                  (\<not> is_valid now (temp_permission e) \<longrightarrow>
                     temp_permission e' = temp_permission e)"
      by blast
  next
    assume "map_of ms m = None"
    then show "set_mode m now e = (Inl (ValueError (''Invalid mode: '' @ m)), e)"
      using p by (simp add: set_mode_def)
  qed
qed

theorem set_mode_is_permanent_witness:
  "modes example_policy = Some
        [(''NORMAL'', \<lparr>description = Some ''normal'',
                       allowed_tools = Some [''get_service_status''],
                       blocked_tools = Some [''restart_service'']\<rparr>),
         (''EMERGENCY'', \<lparr>description = Some ''emergency'',
                          allowed_tools = Some [''restart_service''],
                          blocked_tools = Some []\<rparr>)] \<and>
   is_valid 63900000001 (temp_permission
      (run [Grant_temporary_emergency 10 (127800000001 / 2)] (PolicyEngine_init example_policy))) \<and>
   (\<exists>e'. set_mode ''EMERGENCY'' 63900000001
            (run [Grant_temporary_emergency 10 (127800000001 / 2)]
               (PolicyEngine_init example_policy)) = (Inr (), e') \<and>
         current_mode e' = ''EMERGENCY'' \<and> base_mode e' = ''EMERGENCY'' \<and>
         \<not> is_active (temp_permission e') \<and> (\<forall>is. run (map Expiry is) e' = e')) \<and>
   set_mode ''BOGUS'' 63900000001
       (run [Grant_temporary_emergency 10 (127800000001 / 2)] (PolicyEngine_init example_policy)) =
     (Inl (ValueError ''Invalid mode: BOGUS''),
      run [Grant_temporary_emergency 10 (127800000001 / 2)] (PolicyEngine_init example_policy))"
proof -
  have ms: "modes example_policy = Some
        [(''NORMAL'', \<lparr>description = Some ''normal'',
                       allowed_tools = Some [''get_service_status''],
                       blocked_tools = Some [''restart_service'']\<rparr>),
         (''EMERGENCY'', \<lparr>description = Some ''emergency'',
                          allowed_tools = Some [''restart_service''],
                          blocked_tools = Some []\<rparr>)]"
    by (simp add: example_policy_def)
  have v: "is_valid 63900000001 (temp_permission
      (run [Grant_temporary_emergency 10 (127800000001 / 2)] (PolicyEngine_init example_policy)))"
    unfolding granted_once by (simp add: is_valid_def)
  from set_mode_is_permanent [where m = "''EMERGENCY''" and now = 63900000001
          and pol = example_policy
          and ops = "[Grant_temporary_emergency 10 (127800000001 / 2)]", OF refl ms]
       set_mode_is_permanent [where m = "''BOGUS''" and now = 63900000001
          and pol = example_policy
          and ops = "[Grant_temporary_emergency 10 (127800000001 / 2)]", OF refl ms] ms v
  show ?thesis by auto
qed




text \<open>
  C10: when a grant is active and the current mode is EMERGENCY, another
  \<open>grant_temporary_emergency\<close> stores EMERGENCY as base mode (also when it raises); the
  current mode is then still EMERGENCY after a revocation and after any timer expiry. When
  the call returns, the new timer ends the grant when it fires. The mode in force before
  the first grant is lost.
\<close>

theorem regrant_overwrites_base_mode:
  assumes "is_active (temp_permission e)"
      and "current_mode e = ''EMERGENCY''"
  shows "base_mode (snd (grant_temporary_emergency d now e)) = ''EMERGENCY'' \<and>
         current_mode (revoke_temporary_emergency (snd (grant_temporary_emergency d now e))) =
           ''EMERGENCY'' \<and>
         (\<forall>i. current_mode (timer_fires i (snd (grant_temporary_emergency d now e))) =
                ''EMERGENCY'') \<and>
         (in_datetime_range (now + real_of_int d) \<longrightarrow>
            (\<exists>i. timer (temp_permission (snd (grant_temporary_emergency d now e))) = Some i \<and>
                 \<not> is_active (temp_permission
                      (timer_fires i (snd (grant_temporary_emergency d now e))))))"
  using assms
  by (auto simp: grant_temporary_emergency_def grant_def revoke_temporary_emergency_def revoke_def
      timer_fires_def expire_def on_expiry_def Let_def nth_append split: option.splits)

theorem regrant_overwrites_base_mode_witness:
  "is_active (temp_permission (run [Grant_temporary_emergency 10 (127800000001 / 2)]
      (PolicyEngine_init example_policy))) \<and>
   current_mode (run [Grant_temporary_emergency 10 (127800000001 / 2)]
      (PolicyEngine_init example_policy)) = ''EMERGENCY'' \<and>
   base_mode (run [Grant_temporary_emergency 10 (127800000001 / 2)]
      (PolicyEngine_init example_policy)) = ''NORMAL'' \<and>
   current_mode (revoke_temporary_emergency (snd (grant_temporary_emergency 10 63900000001
       (run [Grant_temporary_emergency 10 (127800000001 / 2)]
          (PolicyEngine_init example_policy))))) = ''EMERGENCY'' \<and>
   current_mode (timer_fires 1 (snd (grant_temporary_emergency 10 63900000001
       (run [Grant_temporary_emergency 10 (127800000001 / 2)]
          (PolicyEngine_init example_policy))))) = ''EMERGENCY''"
proof -
  let ?e = "run [Grant_temporary_emergency 10 (127800000001 / 2)]
              (PolicyEngine_init example_policy)"
  have a: "is_active (temp_permission ?e)"
    unfolding granted_once by simp
  have c: "current_mode ?e = ''EMERGENCY''"
    unfolding granted_once by simp
  have b: "base_mode ?e = ''NORMAL''"
    unfolding granted_once by simp
  from regrant_overwrites_base_mode [OF a c, of 10 63900000001] a b c
  show ?thesis by simp
qed

subsection \<open>Results of the operations\<close>




end
